theory Spec2Isabelle
  imports Main "HOL-Library.List_Lexorder" "HOL-Library.AList"
begin

section \<open>Data model\<close>

text \<open>
  A Python \<open>str\<close> is a sequence of Unicode code points, and \<open>len\<close>, slicing and
  comparison work on code points. Strings are therefore lists of code points; the
  literals of the source are written out as such.
\<close>

type_synonym pystr = "nat list"

text \<open>The exceptions that the modelled code can meet.\<close>

datatype exn =
    FileNotFoundError
  | PermissionError
  | IsADirectoryError
  | UnicodeDecodeError
  | UnicodeEncodeError
  | JSONDecodeError
  | OSError
  | KeyError
  | TypeError
  | AttributeError
  | ValueError
  | RuntimeError

text \<open>
  One entry of a user's \<open>"records"\<close> list. The field \<open>"id"\<close> is called \<open>rec_id\<close>,
  since \<open>id\<close> is the identity function of HOL.
\<close>

record voice_record =
  rec_id :: int
  audio_path :: pystr
  raw_text :: pystr
  summary_text :: pystr
  created_at :: pystr

text \<open>
  One value of \<open>data["users"]\<close>. The display name is \<open>user.username\<close> of the
  transport, which is \<open>None\<close> for an account without one.
\<close>

record user =
  username :: "pystr option"
  records :: "voice_record list"

text \<open>
  \<open>data["users"]\<close>: a dictionary from \<open>str(tg_user_id)\<close> to the user's entry, as the
  list of its items in insertion order. \<open>map_of\<close> looks a key up; \<open>AList.update\<close> is
  the assignment \<open>d[k] = v\<close>, which replaces the value of a key in place and puts a
  new key last.
\<close>

type_synonym store = "(pystr \<times> user) list"

text \<open>
  What \<open>load_data\<close> can observe of \<open>DATA_FILE\<close>: the file does not exist; opening,
  decoding or parsing it raises an exception; or it holds a store. A state \<open>Stored s\<close>
  stands for every text that \<open>json.load\<close> reads as \<open>{"users": s}\<close>, whatever its layout.
\<close>

datatype file_state =
    Absent
  | Failing exn
  | Stored store

text \<open>
  What \<open>save_data\<close> meets when it writes: \<open>open(DATA_FILE, "w")\<close> raises; or the file
  is opened, which empties it, and the operating system fails during the writes or
  the closing flush; or the operating system writes what it is given.
\<close>

datatype disk =
    Writable
  | OpenRaises exn
  | WriteRaises exn

section \<open>Persistence\<close>

text \<open>\<open>str(tg_user_id)\<close>: the decimal digits, with a minus sign for a negative number.\<close>

fun digits :: "nat \<Rightarrow> pystr" where
  "digits n = (if n < 10 then [48 + n] else digits (n div 10) @ [48 + n mod 10])"

declare digits.simps [simp del]

definition str_int :: "int \<Rightarrow> pystr" where
  "str_int i = (if i < 0 then 45 # digits (nat (- i)) else digits (nat i))"

text \<open>The clause \<open>except (json.JSONDecodeError, FileNotFoundError)\<close> of \<open>load_data\<close>.\<close>

definition load_data_catches :: "exn \<Rightarrow> bool" where
  "load_data_catches e = (e = JSONDecodeError \<or> e = FileNotFoundError)"

definition load_data :: "file_state \<Rightarrow> exn + store" where
  "load_data fs =
     (case fs of
        Absent \<Rightarrow> Inr []
      | Failing e \<Rightarrow> (if load_data_catches e then Inr [] else Inl e)
      | Stored s \<Rightarrow> Inr s)"

text \<open>
  The file is opened with \<open>encoding="utf-8"\<close> and \<open>json.dump\<close> is called with
  \<open>ensure_ascii=False\<close>, so every string is written as it is, and a surrogate code point
  (U+D800 to U+DFFF) in a key, a name or a field of a record raises
  \<open>UnicodeEncodeError\<close>.
\<close>

definition utf8_encodable :: "pystr \<Rightarrow> bool" where
  "utf8_encodable s = list_all (\<lambda>c. c < 55296 \<or> 57343 < c) s"

definition record_encodable :: "voice_record \<Rightarrow> bool" where
  "record_encodable r =
     (utf8_encodable (audio_path r) \<and> utf8_encodable (raw_text r) \<and>
      utf8_encodable (summary_text r) \<and> utf8_encodable (created_at r))"

definition user_encodable :: "user \<Rightarrow> bool" where
  "user_encodable u =
     ((case username u of None \<Rightarrow> True | Some n \<Rightarrow> utf8_encodable n) \<and>
      list_all record_encodable (records u))"

definition store_encodable :: "store \<Rightarrow> bool" where
  "store_encodable d = list_all (\<lambda>(k, u). utf8_encodable k \<and> user_encodable u) d"

text \<open>
  \<open>save_data\<close>: the exception it raises, if any, and the file it leaves. When \<open>open\<close>
  raises, the file is untouched. Once the file is open it has been emptied, and an
  exception during the writes leaves the beginning of a JSON text, which is not a JSON
  text: \<open>json.load\<close> raises \<open>JSONDecodeError\<close> on it. A dump that completes leaves a text
  that \<open>json.load\<close> reads as the store that was dumped; this property of the \<open>json\<close>
  module is taken as given.
\<close>

definition save_data :: "disk \<Rightarrow> file_state \<Rightarrow> store \<Rightarrow> exn option \<times> file_state" where
  "save_data dk fs d =
     (case dk of
        OpenRaises e \<Rightarrow> (Some e, fs)
      | WriteRaises e \<Rightarrow> (Some e, Failing JSONDecodeError)
      | Writable \<Rightarrow>
          (if store_encodable d then (None, Stored d)
           else (Some UnicodeEncodeError, Failing JSONDecodeError)))"

text \<open>
  The operations below return their result or exception together with the file they
  leave, since a failed write can change the file.
\<close>

definition get_or_create_user ::
  "disk \<Rightarrow> file_state \<Rightarrow> int \<Rightarrow> pystr option \<Rightarrow> (exn + user) \<times> file_state" where
  "get_or_create_user dk fs tg_user_id name =
     (case load_data fs of
        Inl e \<Rightarrow> (Inl e, fs)
      | Inr d \<Rightarrow>
          (case map_of d (str_int tg_user_id) of
             None \<Rightarrow>
               (let u = \<lparr>username = name, records = []\<rparr>
                in case save_data dk fs (AList.update (str_int tg_user_id) u d) of
                     (Some e, fs') \<Rightarrow> (Inl e, fs')
                   | (None, fs') \<Rightarrow> (Inr u, fs'))
           | Some u \<Rightarrow> (Inr u, fs)))"

text \<open>
  \<open>save_voice_record\<close> reads the clock twice: \<open>now_ts\<close> is
  \<open>int(datetime.now().timestamp())\<close>, \<open>now_iso\<close> is \<open>datetime.now().isoformat()\<close>.
  A user id that is not in the store raises \<open>KeyError\<close>.
\<close>

definition save_voice_record ::
  "disk \<Rightarrow> file_state \<Rightarrow> int \<Rightarrow> pystr \<Rightarrow> pystr \<Rightarrow> pystr \<Rightarrow> int \<Rightarrow> pystr \<Rightarrow>
   (exn + int) \<times> file_state" where
  "save_voice_record dk fs user_id path raw summary now_ts now_iso =
     (case load_data fs of
        Inl e \<Rightarrow> (Inl e, fs)
      | Inr d \<Rightarrow>
          (let record = \<lparr>rec_id = now_ts, audio_path = path, raw_text = raw,
                         summary_text = summary, created_at = now_iso\<rparr>
           in case map_of d (str_int user_id) of
                None \<Rightarrow> (Inl KeyError, fs)
              | Some u \<Rightarrow>
                  (case save_data dk fs
                          (AList.update (str_int user_id)
                             (u\<lparr>records := records u @ [record]\<rparr>) d) of
                     (Some e, fs') \<Rightarrow> (Inl e, fs')
                   | (None, fs') \<Rightarrow> (Inr (rec_id record), fs'))))"

definition get_user_records :: "file_state \<Rightarrow> int \<Rightarrow> exn + voice_record list" where
  "get_user_records fs user_id =
     (case load_data fs of
        Inl e \<Rightarrow> Inl e
      | Inr d \<Rightarrow>
          (case map_of d (str_int user_id) of None \<Rightarrow> Inr [] | Some u \<Rightarrow> Inr (records u)))"

text \<open>The loop of \<open>get_record_by_id\<close>: the first record with the id, or \<open>None\<close>.\<close>

primrec first_with_id :: "int \<Rightarrow> voice_record list \<Rightarrow> voice_record option" where
  "first_with_id record_id [] = None"
| "first_with_id record_id (r # rs) =
     (if rec_id r = record_id then Some r else first_with_id record_id rs)"

definition get_record_by_id :: "file_state \<Rightarrow> int \<Rightarrow> int \<Rightarrow> exn + voice_record option" where
  "get_record_by_id fs user_id record_id =
     (case get_user_records fs user_id of
        Inl e \<Rightarrow> Inl e
      | Inr rs \<Rightarrow> Inr (first_with_id record_id rs))"

text \<open>The loop of \<open>update_summary_text\<close>: it stops (\<open>break\<close>) at the first match.\<close>

primrec set_first_summary :: "int \<Rightarrow> pystr \<Rightarrow> voice_record list \<Rightarrow> voice_record list" where
  "set_first_summary record_id new_summary [] = []"
| "set_first_summary record_id new_summary (r # rs) =
     (if rec_id r = record_id then r\<lparr>summary_text := new_summary\<rparr> # rs
      else r # set_first_summary record_id new_summary rs)"

text \<open>\<open>update_summary_text\<close> returns nothing: the result is the exception, if any.\<close>

definition update_summary_text ::
  "disk \<Rightarrow> file_state \<Rightarrow> int \<Rightarrow> int \<Rightarrow> pystr \<Rightarrow> exn option \<times> file_state" where
  "update_summary_text dk fs user_id record_id new_summary =
     (case load_data fs of
        Inl e \<Rightarrow> (Some e, fs)
      | Inr d \<Rightarrow>
          (case map_of d (str_int user_id) of
             None \<Rightarrow> (Some KeyError, fs)
           | Some u \<Rightarrow>
               save_data dk fs
                 (AList.update (str_int user_id)
                    (u\<lparr>records := set_first_summary record_id new_summary (records u)\<rparr>) d)))"

section \<open>Transcription and summarization stages\<close>

text \<open>
  The two external models are black boxes. A loaded recogniser maps an audio path to
  \<open>transcribe(audio_path, language="ru")["text"]\<close> or raises; a loaded summarizer maps
  a text to \<open>summarizer_pipeline(text, ...)[0]['summary_text']\<close> or raises.
\<close>

type_synonym whisper = "pystr \<Rightarrow> exn + pystr"
type_synonym summarizer = "pystr \<Rightarrow> exn + pystr"

text \<open>The module globals \<open>whisper_model\<close> and \<open>summarizer_pipeline\<close>, initially \<open>None\<close>.\<close>

record model_state =
  whisper_model :: "whisper option"
  summarizer_pipeline :: "summarizer option"

definition initial_models :: model_state where
  "initial_models = \<lparr>whisper_model = None, summarizer_pipeline = None\<rparr>"

text \<open>What \<open>whisper.load_model\<close> and \<open>pipeline("summarization", ...)\<close> do when called.\<close>

record loaders =
  load_whisper :: "exn + whisper"
  load_pipeline :: "exn + summarizer"

text \<open>
  \<open>load_models\<close> fills the globals that are still \<open>None\<close>. Both loads sit in one
  \<open>try\<close>: when the first raises, the second is not attempted. The function returns
  the two globals, so the new state is also its result.
\<close>

definition load_models :: "loaders \<Rightarrow> model_state \<Rightarrow> model_state" where
  "load_models env g =
     (case (if whisper_model g = None
            then (case load_whisper env of
                    Inl e \<Rightarrow> Inl e
                  | Inr w \<Rightarrow> Inr (g\<lparr>whisper_model := Some w\<rparr>))
            else Inr g) of
        Inl e \<Rightarrow> g
      | Inr g1 \<Rightarrow>
          (if summarizer_pipeline g1 = None
           then (case load_pipeline env of
                   Inl e \<Rightarrow> g1
                 | Inr p \<Rightarrow> g1\<lparr>summarizer_pipeline := Some p\<rparr>)
           else g1))"

text \<open>The fallback sentence of \<open>transcribe_audio\<close> (30 code points, Cyrillic).\<close>

definition transcribe_fallback :: pystr where
  "transcribe_fallback =
     [1053, 1077, 32, 1091, 1076, 1072, 1083, 1086, 1089, 1100, 32, 1087, 1086, 1085,
      1103, 1090, 1100, 32, 1090, 1077, 1073, 1103, 44, 32, 1088, 1086, 1076, 1085,
      1086, 1081]"

text \<open>
  \<open>transcribe_audio\<close>: a global that is still \<open>None\<close> makes the call raise
  (\<open>AttributeError\<close>), which the \<open>except Exception\<close> absorbs like any other failure.
\<close>

definition transcribe_audio :: "loaders \<Rightarrow> model_state \<Rightarrow> pystr \<Rightarrow> pystr \<times> model_state" where
  "transcribe_audio env g path =
     (let g' = load_models env g
      in (case (case whisper_model g' of
                  None \<Rightarrow> Inl AttributeError
                | Some w \<Rightarrow> w path) of
            Inl e \<Rightarrow> transcribe_fallback
          | Inr text \<Rightarrow> text,
          g'))"

text \<open>The marker \<open>"..."\<close>.\<close>

definition dots :: pystr where
  "dots = [46, 46, 46]"

text \<open>
  \<open>summarize_text\<close>: the length test comes after \<open>load_models\<close> and before the call of
  the summarizer; calling a global that is still \<open>None\<close> raises \<open>TypeError\<close>.
\<close>

definition summarize_text :: "loaders \<Rightarrow> model_state \<Rightarrow> pystr \<Rightarrow> pystr \<times> model_state" where
  "summarize_text env g text =
     (let g' = load_models env g
      in (case (if length text < 50 then Inr text
                else (case summarizer_pipeline g' of
                        None \<Rightarrow> Inl TypeError
                      | Some p \<Rightarrow> p text)) of
            Inl e \<Rightarrow> (if length text > 100 then take 100 text @ dots else text)
          | Inr summary \<Rightarrow> summary,
          g'))"

section \<open>Handlers\<close>

text \<open>\<open>os.path.join(AUDIO_DIR, name)\<close> on a POSIX system, with \<open>AUDIO_DIR = "audio"\<close>.\<close>

definition audio_dir :: pystr where
  "audio_dir = [97, 117, 100, 105, 111]"

definition path_join :: "pystr \<Rightarrow> pystr \<Rightarrow> pystr" where
  "path_join a b =
     (if b \<noteq> [] \<and> hd b = 47 then b
      else if a = [] \<or> last a = 47 then a @ b
      else a @ [47] @ b)"

definition ogg :: pystr where
  "ogg = [46, 111, 103, 103]"

text \<open>What \<open>handle_voice\<close> answers: the summary, or the error message.\<close>

datatype reply = Heard pystr | ProcessingError

text \<open>
  \<open>handle_voice\<close>. The transport is outside the model: \<open>fetch\<close> is the exception, if
  any, raised by the calls of the \<open>try\<close> block that precede the transcription
  (\<open>get_file\<close>, \<open>download_to_drive\<close>, the first \<open>reply_text\<close>); the last \<open>reply_text\<close>
  is taken to succeed. \<open>get_or_create_user\<close> is called before the \<open>try\<close>, so its
  exception leaves the handler; an exception of \<open>save_voice_record\<close> is caught and
  answered with the error message. \<open>dk\<close> is the state of the disk during the call.
\<close>

definition handle_voice ::
  "loaders \<Rightarrow> model_state \<Rightarrow> disk \<Rightarrow> file_state \<Rightarrow> int \<Rightarrow> pystr option \<Rightarrow> pystr \<Rightarrow>
   exn option \<Rightarrow> int \<Rightarrow> pystr \<Rightarrow> (exn + reply) \<times> model_state \<times> file_state" where
  "handle_voice env g dk fs user_id name file_id fetch now_ts now_iso =
     (case get_or_create_user dk fs user_id name of
        (Inl e, fs1) \<Rightarrow> (Inl e, g, fs1)
      | (Inr u, fs1) \<Rightarrow>
          (let path = path_join audio_dir (file_id @ ogg)
           in case fetch of
                Some e \<Rightarrow> (Inr ProcessingError, g, fs1)
              | None \<Rightarrow>
                  (let (raw, g1) = transcribe_audio env g path;
                       (summary, g2) = summarize_text env g1 raw
                   in case save_voice_record dk fs1 user_id path raw summary now_ts now_iso of
                        (Inl e, fs2) \<Rightarrow> (Inr ProcessingError, g2, fs2)
                      | (Inr i, fs2) \<Rightarrow> (Inr (Heard summary), g2, fs2))))"

text \<open>
  The records that \<open>create_document_button\<close> lists:
  \<open>sorted(records, key=lambda r: r["created_at"], reverse=True)[:10]\<close>. Python compares
  the strings by code points, and \<open>reverse=True\<close> keeps records with equal keys in their
  original order: reverse, sort stably in ascending order, reverse again.
\<close>

definition listed_records :: "voice_record list \<Rightarrow> voice_record list" where
  "listed_records rs = take 10 (rev (sort_key created_at (rev rs)))"

text \<open>A button: its text and its \<open>callback_data\<close>.\<close>

type_synonym button = "pystr \<times> pystr"

definition select_prefix :: pystr where
  "select_prefix = [115, 101, 108, 101, 99, 116, 95]"

definition dash :: pystr where
  "dash = [32, 8212, 32]"

text \<open>
  The row of one record. \<open>fmt_date\<close> stands for
  \<open>datetime.fromisoformat(s).strftime('%d.%m %H:%M')\<close>, which raises \<open>ValueError\<close> on a
  string that is not an ISO date.
\<close>

definition record_button :: "(pystr \<Rightarrow> pystr option) \<Rightarrow> voice_record \<Rightarrow> exn + button" where
  "record_button fmt_date r =
     (case fmt_date (created_at r) of
        None \<Rightarrow> Inl ValueError
      | Some date_str \<Rightarrow>
          Inr (date_str @ dash @ take 30 (summary_text r) @ dots,
               select_prefix @ str_int (rec_id r)))"

text \<open>The loop that fills \<open>keyboard\<close>; the first exception ends it.\<close>

primrec record_buttons :: "(pystr \<Rightarrow> pystr option) \<Rightarrow> voice_record list \<Rightarrow> exn + button list" where
  "record_buttons fmt_date [] = Inr []"
| "record_buttons fmt_date (r # rs) =
     (case record_button fmt_date r of
        Inl e \<Rightarrow> Inl e
      | Inr b \<Rightarrow>
          (case record_buttons fmt_date rs of
             Inl e \<Rightarrow> Inl e
           | Inr bs \<Rightarrow> Inr (b # bs)))"

text \<open>
  What \<open>create_document_button\<close> shows: the notice that there are no records, or the
  rows of the listed records followed by the row of the back button.
\<close>

datatype listing = NoRecords | Keyboard "button list" button

definition back_button :: button where
  "back_button = ([8617, 65039, 32, 1053, 1072, 1079, 1072, 1076], [115, 116, 97, 114, 116])"

definition create_document_button ::
  "(pystr \<Rightarrow> pystr option) \<Rightarrow> file_state \<Rightarrow> int \<Rightarrow> exn + listing" where
  "create_document_button fmt_date fs user_id =
     (case get_user_records fs user_id of
        Inl e \<Rightarrow> Inl e
      | Inr rs \<Rightarrow>
          (if rs = [] then Inr NoRecords
           else (case record_buttons fmt_date (listed_records rs) of
                   Inl e \<Rightarrow> Inl e
                 | Inr bs \<Rightarrow> Inr (Keyboard bs back_button))))"

section \<open>Runs of the store\<close>

text \<open>
  The three operations that write the file, with the state of the disk, the arguments
  and the clock readings of one call. \<open>start\<close> and \<open>handle_voice\<close> call
  \<open>get_or_create_user\<close>, \<open>handle_voice\<close> calls \<open>save_voice_record\<close>, \<open>edit_summary\<close>
  calls \<open>update_summary_text\<close>.
\<close>

datatype action =
    GetOrCreateUser disk int "pystr option"
  | SaveVoiceRecord disk int pystr pystr pystr int pystr
  | UpdateSummaryText disk int int pystr

text \<open>The file that one operation leaves, whether it returns or raises.\<close>

fun step :: "file_state \<Rightarrow> action \<Rightarrow> file_state" where
  "step fs (GetOrCreateUser dk user_id name) = snd (get_or_create_user dk fs user_id name)"
| "step fs (SaveVoiceRecord dk user_id path raw summary now_ts now_iso) =
     snd (save_voice_record dk fs user_id path raw summary now_ts now_iso)"
| "step fs (UpdateSummaryText dk user_id record_id new_summary) =
     snd (update_summary_text dk fs user_id record_id new_summary)"

definition run :: "file_state \<Rightarrow> action list \<Rightarrow> file_state" where
  "run fs acts = foldl step fs acts"

text \<open>The clock readings (whole seconds) of the saves made under the key \<open>k\<close>.\<close>

fun save_stamps :: "pystr \<Rightarrow> action list \<Rightarrow> int list" where
  "save_stamps k [] = []"
| "save_stamps k (SaveVoiceRecord dk user_id path raw summary now_ts now_iso # acts) =
     (if str_int user_id = k then now_ts # save_stamps k acts else save_stamps k acts)"
| "save_stamps k (a # acts) = save_stamps k acts"

section \<open>Failure of a stage\<close>

text \<open>
  The recogniser fails on a path when the global is still \<open>None\<close> after \<open>load_models\<close>,
  or when the call raises; likewise the summarizer on a text.
\<close>

definition whisper_fails :: "loaders \<Rightarrow> model_state \<Rightarrow> pystr \<Rightarrow> bool" where
  "whisper_fails env g path =
     (case whisper_model (load_models env g) of None \<Rightarrow> True | Some w \<Rightarrow> isl (w path))"

definition summarizer_fails :: "loaders \<Rightarrow> model_state \<Rightarrow> pystr \<Rightarrow> bool" where
  "summarizer_fails env g text =
     (case summarizer_pipeline (load_models env g) of None \<Rightarrow> True | Some p \<Rightarrow> isl (p text))"

section \<open>The users a file holds\<close>

text \<open>What \<open>load_data\<close> returns whenever it returns: the users of the file, none when
  the file holds no store.\<close>

definition stored_users :: "file_state \<Rightarrow> store" where
  "stored_users fs = (case fs of Stored s \<Rightarrow> s | _ \<Rightarrow> [])"

section \<open>Basic facts\<close>

lemma str_int_1: "str_int 1 = [49]"
  by (simp add: str_int_def digits.simps)

lemma str_int_2: "str_int 2 = [50]"
  by (simp add: str_int_def digits.simps)

lemma load_data_stored_users: "load_data fs = Inr d \<Longrightarrow> d = stored_users fs"
  by (auto simp: load_data_def stored_users_def split: file_state.splits if_splits)

lemma load_data_Stored: "load_data (Stored d) = Inr d"
  by (simp add: load_data_def)


lemma load_data_present:
  "load_data fs = Inr d \<Longrightarrow> map_of d k = Some u \<Longrightarrow> fs = Stored d"
  by (auto simp: load_data_def split: file_state.splits if_splits)

subsection \<open>What can be written\<close>

lemma store_encodable_update:
  "store_encodable d \<Longrightarrow> utf8_encodable k \<Longrightarrow> user_encodable u \<Longrightarrow>
   store_encodable (AList.update k u d)"
  by (induction d) (auto simp: store_encodable_def)

lemma store_encodable_lookup:
  "store_encodable d \<Longrightarrow> map_of d k = Some u \<Longrightarrow> utf8_encodable k \<and> user_encodable u"
  by (induction d) (auto simp: store_encodable_def split: if_splits)

lemma store_encodable_update_other:
  "store_encodable (AList.update k u d) \<Longrightarrow> user_encodable u' \<Longrightarrow>
   store_encodable (AList.update k u' d)"
  by (induction d) (auto simp: store_encodable_def)



lemma record_encodable_summary:
  "record_encodable r \<Longrightarrow> utf8_encodable new \<Longrightarrow> record_encodable (r\<lparr>summary_text := new\<rparr>)"
  by (simp add: record_encodable_def)

lemma list_all_set_first_summary:
  "list_all record_encodable rs \<Longrightarrow> utf8_encodable new \<Longrightarrow>
   list_all record_encodable (set_first_summary rid new rs)"
  by (induction rs) (auto simp: record_encodable_summary)

lemma user_encodable_set_first_summary:
  "user_encodable u \<Longrightarrow> utf8_encodable new \<Longrightarrow>
   user_encodable (u\<lparr>records := set_first_summary rid new (records u)\<rparr>)"
  by (simp add: user_encodable_def list_all_set_first_summary)

lemma store_encodable_updateD:
  "store_encodable (AList.update k u d) \<Longrightarrow> utf8_encodable k \<and> user_encodable u"
  by (induction d) (auto simp: store_encodable_def split: if_splits)

lemma update_summary_text_ok:
  assumes "load_data fs = Inr d" and "map_of d (str_int uid) = Some u"
    and "store_encodable d" and "utf8_encodable new"
  shows "update_summary_text Writable fs uid rid new =
     (None, Stored (AList.update (str_int uid)
        (u\<lparr>records := set_first_summary rid new (records u)\<rparr>) d))"
proof -
  from store_encodable_lookup [OF assms(3,2)]
  have "utf8_encodable (str_int uid)" and "user_encodable u" by simp_all
  then have "store_encodable (AList.update (str_int uid)
        (u\<lparr>records := set_first_summary rid new (records u)\<rparr>) d)"
    using assms(3,4) by (simp add: store_encodable_update user_encodable_set_first_summary)
  then show ?thesis
    using assms(1,2) by (simp add: update_summary_text_def save_data_def)
qed

subsection \<open>The two loops over a record list\<close>

lemma first_with_id_Some:
  "r \<in> set rs \<Longrightarrow> rec_id r = rid \<Longrightarrow> \<exists>r0. first_with_id rid rs = Some r0 \<and> rec_id r0 = rid"
  by (induction rs) auto

lemma first_with_id_set_first_summary:
  "first_with_id rid (set_first_summary rid new rs) =
     map_option (\<lambda>r. r\<lparr>summary_text := new\<rparr>) (first_with_id rid rs)"
  by (induction rs) auto

lemma length_set_first_summary: "length (set_first_summary rid new rs) = length rs"
  by (induction rs) auto

lemma map_rec_id_set_first_summary:
  "map rec_id (set_first_summary rid new rs) = map rec_id rs"
  by (induction rs) auto

lemma set_first_summary_no_match:
  "\<forall>r\<in>set rs. rec_id r \<noteq> rid \<Longrightarrow> set_first_summary rid new rs = rs"
  by (induction rs) auto

lemma nth_set_first_summary:
  "i < length rs \<Longrightarrow>
   set_first_summary rid new rs ! i =
     (if rec_id (rs ! i) = rid \<and> (\<forall>j<i. rec_id (rs ! j) \<noteq> rid)
      then (rs ! i)\<lparr>summary_text := new\<rparr> else rs ! i)"
proof (induction rs arbitrary: i)
  case Nil
  then show ?case by simp
next
  case (Cons r rs)
  show ?case
  proof (cases i)
    case 0
    then show ?thesis by simp
  next
    case (Suc k)
    with Cons.prems have k: "k < length rs" by simp
    show ?thesis
    proof (cases "rec_id r = rid")
      case True
      then have "\<not> (\<forall>j<i. rec_id ((r # rs) ! j) \<noteq> rid)"
        using Suc by (auto intro: exI [of _ 0])
      then show ?thesis using True Suc by auto
    next
      case False
      have "(\<forall>j<i. rec_id ((r # rs) ! j) \<noteq> rid) = (\<forall>j<k. rec_id (rs ! j) \<noteq> rid)"
        using False Suc by (auto simp: less_Suc_eq_0_disj)
      with False Suc Cons.IH [OF k] show ?thesis by auto
    qed
  qed
qed

subsection \<open>The stages\<close>

lemma transcribe_audio_fails:
  "whisper_fails env g path \<Longrightarrow> fst (transcribe_audio env g path) = transcribe_fallback"
  by (auto simp: transcribe_audio_def whisper_fails_def Let_def split: option.splits sum.splits)

lemma length_transcribe_fallback: "length transcribe_fallback = 30"
  by (simp add: transcribe_fallback_def)

lemma summarize_text_below_50: "length text < 50 \<Longrightarrow> fst (summarize_text env g text) = text"
  by (simp add: summarize_text_def Let_def)

lemma summarize_text_fallback:
  "50 \<le> length text \<Longrightarrow> summarizer_fails env g text \<Longrightarrow>
   fst (summarize_text env g text) = (if 100 < length text then take 100 text @ dots else text)"
  by (auto simp: summarize_text_def summarizer_fails_def Let_def split: option.splits sum.splits)

subsection \<open>The listing\<close>

lemma length_listed_records: "length (listed_records rs) = min 10 (length rs)"
  by (simp add: listed_records_def)

lemma set_listed_records: "set (listed_records rs) \<subseteq> set rs"
  unfolding listed_records_def
  using set_take_subset [of 10 "rev (sort_key created_at (rev rs))"] by simp

lemma listed_records_descending:
  "sorted_wrt (\<lambda>a b. created_at b \<le> created_at a) (listed_records rs)"
proof -
  have "sorted (map created_at (sort_key created_at (rev rs)))"
    by (rule sorted_sort_key)
  then have "sorted_wrt (\<lambda>a b. created_at a \<le> created_at b) (sort_key created_at (rev rs))"
    by (simp add: sorted_wrt_map)
  then have "sorted_wrt (\<lambda>a b. created_at b \<le> created_at a)
      (rev (sort_key created_at (rev rs)))"
    by (simp add: sorted_wrt_rev)
  then show ?thesis
    unfolding listed_records_def by (rule sorted_wrt_take)
qed

lemma record_buttons_Inr:
  "record_buttons fmt rs = Inr bs \<Longrightarrow>
     length bs = length rs \<and> map snd bs = map (\<lambda>r. select_prefix @ str_int (rec_id r)) rs"
  by (induction rs arbitrary: bs) (auto simp: record_button_def split: sum.splits option.splits)

subsection \<open>Runs\<close>

lemma save_stamps_append: "save_stamps k (xs @ ys) = save_stamps k xs @ save_stamps k ys"
  by (induction k xs rule: save_stamps.induct) auto

lemma run_snoc: "run fs (acts @ [a]) = step (run fs acts) a"
  by (simp add: run_def)

text \<open>One step leaves the ids of a user's records as they are, leaves the user with no
  record, or appends the clock reading of a save made under the user's key.\<close>

lemma stored_users_step_cases:
  assumes "map_of (stored_users (step fs a)) k = Some u'"
  shows "(\<exists>u. map_of (stored_users fs) k = Some u \<and>
              map rec_id (records u') = map rec_id (records u))
       \<or> records u' = []
       \<or> (\<exists>u dk uid path raw summary ts stamp.
             a = SaveVoiceRecord dk uid path raw summary ts stamp \<and>
             str_int uid = k \<and> map_of (stored_users fs) k = Some u \<and>
             map rec_id (records u') = map rec_id (records u) @ [ts])"
proof (cases a)
  case (GetOrCreateUser dk uid name)
  show ?thesis
  proof (cases "load_data fs")
    case (Inl e)
    with GetOrCreateUser assms show ?thesis by (simp add: get_or_create_user_def)
  next
    case (Inr d)
    then have d: "d = stored_users fs" by (rule load_data_stored_users)
    show ?thesis
      using assms GetOrCreateUser Inr d
      by (auto simp: get_or_create_user_def save_data_def stored_users_def Let_def
          AList.update_conv' split: option.splits if_splits disk.splits)
  qed
next
  case (SaveVoiceRecord dk uid path raw summary ts stamp)
  show ?thesis
  proof (cases "load_data fs")
    case (Inl e)
    with SaveVoiceRecord assms show ?thesis by (simp add: save_voice_record_def)
  next
    case (Inr d)
    then have d: "d = stored_users fs" by (rule load_data_stored_users)
    show ?thesis
      using assms SaveVoiceRecord Inr d
      by (auto simp: save_voice_record_def save_data_def stored_users_def Let_def
          AList.update_conv' split: option.splits if_splits disk.splits)
  qed
next
  case (UpdateSummaryText dk uid rid new)
  show ?thesis
  proof (cases "load_data fs")
    case (Inl e)
    with UpdateSummaryText assms show ?thesis by (simp add: update_summary_text_def)
  next
    case (Inr d)
    then have d: "d = stored_users fs" by (rule load_data_stored_users)
    show ?thesis
      using assms UpdateSummaryText Inr d
      by (auto simp: update_summary_text_def save_data_def stored_users_def
          AList.update_conv' map_rec_id_set_first_summary
          split: option.splits if_splits disk.splits)
  qed
qed

lemma ids_in_stamps:
  "map_of (stored_users (run Absent acts)) k = Some u \<Longrightarrow>
     set (map rec_id (records u)) \<subseteq> set (save_stamps k acts) \<and>
     (distinct (save_stamps k acts) \<longrightarrow> distinct (map rec_id (records u)))"
proof (induction acts arbitrary: u rule: rev_induct)
  case Nil
  then show ?case by (simp add: run_def stored_users_def)
next
  case (snoc a acts)
  from snoc.prems have st: "map_of (stored_users (step (run Absent acts) a)) k = Some u"
    by (simp add: run_snoc)
  from stored_users_step_cases [OF st]
  consider
    (same) u0 where "map_of (stored_users (run Absent acts)) k = Some u0"
      "map rec_id (records u) = map rec_id (records u0)"
    | (new) "records u = []"
    | (app) u0 dk uid path raw summary ts stamp where
      "a = SaveVoiceRecord dk uid path raw summary ts stamp" "str_int uid = k"
      "map_of (stored_users (run Absent acts)) k = Some u0"
      "map rec_id (records u) = map rec_id (records u0) @ [ts]"
    by blast
  then show ?case
  proof cases
    case same
    from snoc.IH [OF same(1)] same(2) show ?thesis
      by (auto simp: save_stamps_append)
  next
    case new
    then show ?thesis by simp
  next
    case app
    from snoc.IH [OF app(3)] app(1,2,4) show ?thesis
      by (auto simp: save_stamps_append)
  qed
qed

section \<open>Claims\<close>

text \<open>
  C7. For every text shorter than 50 characters, \<open>summarize_text\<close> returns the text
  unchanged, whatever the state of the models: the function is total, so it never
  raises, and the summarizer is not applied.
\<close>

theorem summarize_text_short_unchanged:
  "length text < 50 \<Longrightarrow> fst (summarize_text env g text) = text"
  by (simp add: summarize_text_def Let_def)

theorem summarize_text_short_unchanged_witness:
  "length [1087, 1088, 1080, 1074, 1077, 1090 :: nat] < 50 \<and>
   fst (summarize_text \<lparr>load_whisper = Inl RuntimeError, load_pipeline = Inr (\<lambda>t. Inr [33])\<rparr>
          initial_models [1087, 1088, 1080, 1074, 1077, 1090]) =
     [1087, 1088, 1080, 1074, 1077, 1090]"
  using summarize_text_short_unchanged
    [of "[1087, 1088, 1080, 1074, 1077, 1090]"
        "\<lparr>load_whisper = Inl RuntimeError, load_pipeline = Inr (\<lambda>t. Inr [33])\<rparr>" initial_models]
  by simp

text \<open>
  C3, as stated, fails: a text of 50 to 100 characters whose summarization fails comes
  back unchanged, with no marker. Here the text has 60 characters and the summarizer
  could not be loaded.
\<close>

theorem summarize_text_fallback_no_marker:
  "50 \<le> length (replicate 60 (97 :: nat)) \<and>
   summarizer_fails \<lparr>load_whisper = Inl RuntimeError, load_pipeline = Inl RuntimeError\<rparr>
     initial_models (replicate 60 97) \<and>
   fst (summarize_text \<lparr>load_whisper = Inl RuntimeError, load_pipeline = Inl RuntimeError\<rparr>
          initial_models (replicate 60 97)) = replicate 60 97 \<and>
   fst (summarize_text \<lparr>load_whisper = Inl RuntimeError, load_pipeline = Inl RuntimeError\<rparr>
          initial_models (replicate 60 97)) \<noteq> take 100 (replicate 60 97) @ dots"
  by (simp add: summarize_text_def summarizer_fails_def load_models_def initial_models_def
      dots_def)

text \<open>
  C3, amended. For every text of at least 50 characters whose summarization fails (the
  summarizer is not loaded, or its call raises), \<open>summarize_text\<close> returns the first 100
  characters followed by \<open>"..."\<close> when the text is longer than 100 characters, and the
  text unchanged when it has at most 100 characters.
\<close>

theorem summarize_text_failure_fallback:
  "50 \<le> length text \<Longrightarrow> summarizer_fails env g text \<Longrightarrow>
   fst (summarize_text env g text) = (if 100 < length text then take 100 text @ dots else text)"
  by (auto simp: summarize_text_def summarizer_fails_def Let_def split: option.splits sum.splits)

theorem summarize_text_failure_fallback_witness:
  "50 \<le> length (replicate 200 (97 :: nat)) \<and>
   summarizer_fails
     \<lparr>load_whisper = Inl RuntimeError, load_pipeline = Inr (\<lambda>t. Inl RuntimeError)\<rparr>
     initial_models (replicate 200 97) \<and>
   fst (summarize_text
          \<lparr>load_whisper = Inl RuntimeError, load_pipeline = Inr (\<lambda>t. Inl RuntimeError)\<rparr>
          initial_models (replicate 200 97)) = replicate 100 97 @ [46, 46, 46]"
proof -
  have f: "summarizer_fails
     \<lparr>load_whisper = Inl RuntimeError, load_pipeline = Inr (\<lambda>t. Inl RuntimeError)\<rparr>
     initial_models (replicate 200 (97 :: nat))"
    by (simp add: summarizer_fails_def load_models_def initial_models_def)
  have l: "50 \<le> length (replicate 200 (97 :: nat))" by simp
  from summarize_text_failure_fallback [OF l f] f show ?thesis
    by (simp add: dots_def)
qed

text \<open>
  C2, as stated, fails: not every state of the file is absorbed. The \<open>except\<close> clause
  names two exceptions only, so a file that exists and cannot be opened makes
  \<open>load_data\<close> raise \<open>PermissionError\<close> to its caller.
\<close>

theorem load_data_raises_permission_error:
  "load_data (Failing PermissionError) = Inl PermissionError"
  by (simp add: load_data_def load_data_catches_def)

text \<open>
  C2, amended. \<open>load_data\<close> returns the empty mapping when the file is absent, when it
  vanishes before it is opened (\<open>FileNotFoundError\<close>) and when its text is not JSON
  (\<open>JSONDecodeError\<close>); a file that holds a store is returned as it is.
\<close>

theorem load_data_empty_on_absent_or_unparsable:
  "load_data Absent = Inr [] \<and>
   load_data (Failing FileNotFoundError) = Inr [] \<and>
   load_data (Failing JSONDecodeError) = Inr [] \<and>
   load_data (Stored s) = Inr s"
  by (simp add: load_data_def load_data_catches_def)







text \<open>
  C4, as stated, fails: not every text can be stored. A text with a lone surrogate makes
  the write raise after the file was emptied, and \<open>get_record_by_id\<close> then finds no
  record.
\<close>

theorem update_then_get_loses_record:
  "update_summary_text Writable
     (Stored [([49], \<lparr>username = None, records =
        [\<lparr>rec_id = 42, audio_path = [97], raw_text = [98], summary_text = [99],
          created_at = [100]\<rparr>]\<rparr>)]) 1 42 [55296] =
     (Some UnicodeEncodeError, Failing JSONDecodeError) \<and>
   get_record_by_id (Failing JSONDecodeError) 1 42 = Inr None"
  by (simp add: update_summary_text_def load_data_def load_data_catches_def save_data_def
      str_int_1 get_record_by_id_def get_user_records_def store_encodable_def
      user_encodable_def record_encodable_def utf8_encodable_def)

text \<open>
  C4, amended. When the user's record list has a record with id \<open>rid\<close>, the new text
  and the stored strings can be encoded in UTF-8 and the file can be written,
  \<open>update_summary_text\<close> succeeds, and \<open>get_record_by_id\<close> on the file it wrote returns
  the first record with that id, with \<open>summary_text\<close> equal to the new text and nothing
  left of the old one.
\<close>

theorem update_then_get_returns_new_summary:
  assumes "load_data fs = Inr d" and "map_of d (str_int uid) = Some u"
    and "r \<in> set (records u)" and "rec_id r = rid"
    and "store_encodable d" and "utf8_encodable new"
  shows "\<exists>fs' r0. update_summary_text Writable fs uid rid new = (None, fs') \<and>
           first_with_id rid (records u) = Some r0 \<and>
           get_record_by_id fs' uid rid = Inr (Some (r0\<lparr>summary_text := new\<rparr>)) \<and>
           summary_text (r0\<lparr>summary_text := new\<rparr>) = new"
proof -
  obtain r0 where r0: "first_with_id rid (records u) = Some r0"
    using first_with_id_Some [OF assms(3,4)] by blast
  let ?fs' = "Stored (AList.update (str_int uid)
        (u\<lparr>records := set_first_summary rid new (records u)\<rparr>) d)"
  have upd: "update_summary_text Writable fs uid rid new = (None, ?fs')"
    using assms(1,2,5,6) by (rule update_summary_text_ok)
  have "get_record_by_id ?fs' uid rid = Inr (Some (r0\<lparr>summary_text := new\<rparr>))"
    by (simp add: get_record_by_id_def get_user_records_def load_data_Stored
        AList.update_conv' first_with_id_set_first_summary r0)
  with upd r0 show ?thesis by simp
qed

theorem update_then_get_returns_new_summary_witness:
  "\<exists>fs'. update_summary_text Writable
       (Stored [([49], \<lparr>username = None, records =
          [\<lparr>rec_id = 41, audio_path = [97], raw_text = [98], summary_text = [99],
            created_at = [100]\<rparr>,
           \<lparr>rec_id = 42, audio_path = [101], raw_text = [102], summary_text = [103],
            created_at = [104]\<rparr>]\<rparr>)]) 1 42 [110, 101, 119] = (None, fs') \<and>
     get_record_by_id fs' 1 42 =
       Inr (Some \<lparr>rec_id = 42, audio_path = [101], raw_text = [102],
                  summary_text = [110, 101, 119], created_at = [104]\<rparr>)"
proof -
  let ?u = "\<lparr>username = None, records =
          [\<lparr>rec_id = 41, audio_path = [97], raw_text = [98], summary_text = [99],
            created_at = [100]\<rparr>,
           \<lparr>rec_id = 42, audio_path = [101], raw_text = [102], summary_text = [103],
            created_at = [104]\<rparr>]\<rparr>"
  let ?r = "\<lparr>rec_id = 42, audio_path = [101], raw_text = [102], summary_text = [103],
            created_at = [104]\<rparr>"
  have l: "load_data (Stored [([49], ?u)]) = Inr [([49], ?u)]" by (simp add: load_data_def)
  have m: "map_of [([49], ?u)] (str_int 1) = Some ?u" by (simp add: str_int_1)
  have r: "?r \<in> set (records ?u)" by simp
  have i: "rec_id ?r = 42" by simp
  have e: "store_encodable [([49], ?u)]"
    by (simp add: store_encodable_def user_encodable_def record_encodable_def
        utf8_encodable_def)
  have n: "utf8_encodable [110, 101, 119]" by (simp add: utf8_encodable_def)
  from update_then_get_returns_new_summary [OF l m r i e n]
  show ?thesis by auto
qed

text \<open>
  C9, as stated, fails: \<open>update_summary_text\<close> rewrites the whole file, and a new text
  that UTF-8 cannot encode makes the write raise after the file was emptied. The
  records of every user are then gone, those of the other users included.
\<close>

theorem update_summary_text_loses_store:
  "update_summary_text Writable
     (Stored [([49], \<lparr>username = None, records =
        [\<lparr>rec_id = 42, audio_path = [97], raw_text = [98], summary_text = [99],
          created_at = [100]\<rparr>]\<rparr>),
       ([50], \<lparr>username = Some [120], records =
        [\<lparr>rec_id = 7, audio_path = [101], raw_text = [102], summary_text = [103],
          created_at = [104]\<rparr>]\<rparr>)]) 1 42 [55296] =
     (Some UnicodeEncodeError, Failing JSONDecodeError) \<and>
   get_user_records
     (Stored [([49], \<lparr>username = None, records =
        [\<lparr>rec_id = 42, audio_path = [97], raw_text = [98], summary_text = [99],
          created_at = [100]\<rparr>]\<rparr>),
       ([50], \<lparr>username = Some [120], records =
        [\<lparr>rec_id = 7, audio_path = [101], raw_text = [102], summary_text = [103],
          created_at = [104]\<rparr>]\<rparr>)]) 2 =
     Inr [\<lparr>rec_id = 7, audio_path = [101], raw_text = [102], summary_text = [103],
          created_at = [104]\<rparr>] \<and>
   get_user_records (Failing JSONDecodeError) 2 = Inr []"
  by (simp add: update_summary_text_def load_data_def load_data_catches_def save_data_def
      str_int_1 str_int_2 get_user_records_def store_encodable_def
      user_encodable_def record_encodable_def utf8_encodable_def)

text \<open>
  C9, amended. For a user present in the store, when the new text and the stored
  strings can be encoded in UTF-8 and the file can be written, \<open>update_summary_text\<close>
  rewrites the file with the same keys in the same order and the same entry for every
  other key; the user's entry has the same name and the same number of records, every
  record but the first one with id \<open>rid\<close> is the same record, and that one differs in
  \<open>summary_text\<close> only. When no record of the user has id \<open>rid\<close>, the file is as it
  was. When the file cannot be opened for writing, the call raises and the file is as
  it was.
\<close>

theorem update_summary_text_frame:
  assumes "load_data fs = Inr d" and "map_of d (str_int uid) = Some u"
    and "store_encodable d" and "utf8_encodable new"
  shows "\<exists>u'. update_summary_text Writable fs uid rid new =
             (None, Stored (AList.update (str_int uid) u' d)) \<and>
           (\<forall>k. k \<noteq> str_int uid \<longrightarrow>
              map_of (AList.update (str_int uid) u' d) k = map_of d k) \<and>
           map fst (AList.update (str_int uid) u' d) = map fst d \<and>
           username u' = username u \<and>
           length (records u') = length (records u) \<and>
           (\<forall>i<length (records u).
              records u' ! i =
                (if rec_id (records u ! i) = rid \<and> (\<forall>j<i. rec_id (records u ! j) \<noteq> rid)
                 then (records u ! i)\<lparr>summary_text := new\<rparr> else records u ! i) \<and>
              rec_id (records u' ! i) = rec_id (records u ! i) \<and>
              audio_path (records u' ! i) = audio_path (records u ! i) \<and>
              raw_text (records u' ! i) = raw_text (records u ! i) \<and>
              created_at (records u' ! i) = created_at (records u ! i)) \<and>
           ((\<forall>r\<in>set (records u). rec_id r \<noteq> rid) \<longrightarrow>
              update_summary_text Writable fs uid rid new = (None, fs)) \<and>
           (\<forall>e. update_summary_text (OpenRaises e) fs uid rid new = (Some e, fs))"
proof -
  let ?u' = "u\<lparr>records := set_first_summary rid new (records u)\<rparr>"
  let ?d' = "AList.update (str_int uid) ?u' d"
  have upd: "update_summary_text Writable fs uid rid new = (None, Stored ?d')"
    using assms by (rule update_summary_text_ok)
  have others: "\<forall>k. k \<noteq> str_int uid \<longrightarrow> map_of ?d' k = map_of d k"
    by (simp add: AList.update_conv')
  have "map_of d (str_int uid) \<noteq> None" using assms(2) by simp
  then have "str_int uid \<in> fst ` set d" by (simp add: map_of_eq_None_iff)
  then have keys: "map fst ?d' = map fst d"
    by (induction d) auto
  have nth: "\<forall>i<length (records u).
      records ?u' ! i =
        (if rec_id (records u ! i) = rid \<and> (\<forall>j<i. rec_id (records u ! j) \<noteq> rid)
         then (records u ! i)\<lparr>summary_text := new\<rparr> else records u ! i) \<and>
      rec_id (records ?u' ! i) = rec_id (records u ! i) \<and>
      audio_path (records ?u' ! i) = audio_path (records u ! i) \<and>
      raw_text (records ?u' ! i) = raw_text (records u ! i) \<and>
      created_at (records ?u' ! i) = created_at (records u ! i)"
    by (simp add: nth_set_first_summary)
  have same: "(\<forall>r\<in>set (records u). rec_id r \<noteq> rid) \<longrightarrow>
      update_summary_text Writable fs uid rid new = (None, fs)"
  proof
    assume "\<forall>r\<in>set (records u). rec_id r \<noteq> rid"
    then have "?u' = u" by (simp add: set_first_summary_no_match)
    moreover have "fs = Stored d" using assms(1,2) by (rule load_data_present)
    moreover have "AList.update (str_int uid) u d = d"
      using assms(2) by (rule AList.update_triv)
    ultimately show "update_summary_text Writable fs uid rid new = (None, fs)"
      using upd by simp
  qed
  have openr: "\<forall>e. update_summary_text (OpenRaises e) fs uid rid new = (Some e, fs)"
    using assms(1,2) by (simp add: update_summary_text_def save_data_def)
  have "username ?u' = username u" and "length (records ?u') = length (records u)"
    by (simp_all add: length_set_first_summary)
  with upd others keys nth same openr show ?thesis by blast
qed

theorem update_summary_text_frame_witness:
  "\<exists>fs'. update_summary_text Writable
       (Stored [([49], \<lparr>username = None, records =
          [\<lparr>rec_id = 41, audio_path = [97], raw_text = [98], summary_text = [99],
            created_at = [100]\<rparr>,
           \<lparr>rec_id = 42, audio_path = [101], raw_text = [102], summary_text = [103],
            created_at = [104]\<rparr>,
           \<lparr>rec_id = 42, audio_path = [105], raw_text = [106], summary_text = [107],
            created_at = [108]\<rparr>]\<rparr>),
          ([50], \<lparr>username = Some [120], records =
          [\<lparr>rec_id = 42, audio_path = [109], raw_text = [110], summary_text = [111],
            created_at = [112]\<rparr>]\<rparr>)]) 1 42 [110, 101, 119] = (None, fs') \<and>
     get_user_records fs' 1 = Inr
          [\<lparr>rec_id = 41, audio_path = [97], raw_text = [98], summary_text = [99],
            created_at = [100]\<rparr>,
           \<lparr>rec_id = 42, audio_path = [101], raw_text = [102], summary_text = [110, 101, 119],
            created_at = [104]\<rparr>,
           \<lparr>rec_id = 42, audio_path = [105], raw_text = [106], summary_text = [107],
            created_at = [108]\<rparr>] \<and>
     get_user_records fs' 2 = Inr
          [\<lparr>rec_id = 42, audio_path = [109], raw_text = [110], summary_text = [111],
            created_at = [112]\<rparr>]"
proof -
  let ?u = "\<lparr>username = None, records =
          [\<lparr>rec_id = 41, audio_path = [97], raw_text = [98], summary_text = [99],
            created_at = [100]\<rparr>,
           \<lparr>rec_id = 42, audio_path = [101], raw_text = [102], summary_text = [103],
            created_at = [104]\<rparr>,
           \<lparr>rec_id = 42, audio_path = [105], raw_text = [106], summary_text = [107],
            created_at = [108]\<rparr>]\<rparr>"
  let ?d = "[([49], ?u),
          ([50], \<lparr>username = Some [120], records =
          [\<lparr>rec_id = 42, audio_path = [109], raw_text = [110], summary_text = [111],
            created_at = [112]\<rparr>]\<rparr>)]"
  let ?d' = "[([49 :: nat], \<lparr>username = None, records =
          [\<lparr>rec_id = 41, audio_path = [97], raw_text = [98], summary_text = [99],
            created_at = [100]\<rparr>,
           \<lparr>rec_id = 42, audio_path = [101], raw_text = [102], summary_text = [110, 101, 119],
            created_at = [104]\<rparr>,
           \<lparr>rec_id = 42, audio_path = [105], raw_text = [106], summary_text = [107],
            created_at = [108]\<rparr>]\<rparr>),
          ([50 :: nat], \<lparr>username = Some [120], records =
          [\<lparr>rec_id = 42, audio_path = [109], raw_text = [110], summary_text = [111],
            created_at = [112]\<rparr>]\<rparr>)]"
  have l: "load_data (Stored ?d) = Inr ?d" by (simp add: load_data_def)
  have m: "map_of ?d (str_int 1) = Some ?u" by (simp add: str_int_1)
  have e: "store_encodable ?d"
    by (simp add: store_encodable_def user_encodable_def record_encodable_def
        utf8_encodable_def)
  have n: "utf8_encodable [110, 101, 119]" by (simp add: utf8_encodable_def)
  have e': "store_encodable ?d'"
    by (simp add: store_encodable_def user_encodable_def record_encodable_def
        utf8_encodable_def)
  have h: "update_summary_text Writable (Stored ?d) 1 42 [110, 101, 119] = (None, Stored ?d')"
    using e' by (simp add: update_summary_text_def load_data_def save_data_def str_int_1)
  have g: "get_user_records (Stored ?d') 1 = Inr (records (the (map_of ?d' [49])))"
    "get_user_records (Stored ?d') 2 = Inr (records (the (map_of ?d' [50])))"
    by (simp_all add: get_user_records_def load_data_def str_int_1 str_int_2)
  from update_summary_text_frame [OF l m e n, of 42] h g
  show ?thesis by simp
qed

text \<open>
  C5. When \<open>create_document_button\<close> shows a listing, it has one row for each of at most
  10 of the user's records, in the order of those records, which is descending in
  \<open>created_at\<close> (the strings compared as Python compares them); the row of the back
  button follows them. In the example the user has 11 records with the dates that
  \<open>isoformat\<close> gives, the formatter is \<open>fromisoformat\<close> and \<open>strftime\<close> on those
  dates, and the listing has the 10 latest, the latest first.
\<close>

theorem create_document_button_listing:
  assumes "create_document_button fmt fs uid = Inr (Keyboard bs back)"
  shows "length bs \<le> 10 \<and>
         (\<exists>rs. get_user_records fs uid = Inr rs \<and>
            set (listed_records rs) \<subseteq> set rs \<and>
            map snd bs = map (\<lambda>r. select_prefix @ str_int (rec_id r)) (listed_records rs) \<and>
            sorted_wrt (\<lambda>a b. created_at b \<le> created_at a) (listed_records rs))"
proof -
  from assms obtain rs where rs: "get_user_records fs uid = Inr rs"
    and bs: "record_buttons fmt (listed_records rs) = Inr bs"
    by (auto simp: create_document_button_def split: sum.splits if_splits)
  from record_buttons_Inr [OF bs]
  have len: "length bs = length (listed_records rs)"
    and ids: "map snd bs = map (\<lambda>r. select_prefix @ str_int (rec_id r)) (listed_records rs)"
    by simp_all
  from len have "length bs \<le> 10" by (simp add: length_listed_records)
  with rs ids set_listed_records [of rs] listed_records_descending [of rs]
  show ?thesis by blast
qed

theorem create_document_button_listing_witness:
  "\<exists>bs. create_document_button
     (map_of
        [([50, 48, 50, 52, 45, 48, 53, 45, 48, 49, 84, 48, 57, 58, 49, 53, 58, 51, 48, 46, 50, 53, 48, 48, 48, 48],
          [48, 49, 46, 48, 53, 32, 48, 57, 58, 49, 53]),
         ([50, 48, 50, 52, 45, 48, 53, 45, 48, 49, 84, 49, 54, 58, 50, 56, 58, 51, 48, 46, 50, 53, 49, 49, 49, 49],
          [48, 49, 46, 48, 53, 32, 49, 54, 58, 50, 56]),
         ([50, 48, 50, 52, 45, 48, 53, 45, 48, 49, 84, 50, 51, 58, 52, 49, 58, 51, 48, 46, 50, 53, 50, 50, 50, 50],
          [48, 49, 46, 48, 53, 32, 50, 51, 58, 52, 49]),
         ([50, 48, 50, 52, 45, 48, 53, 45, 48, 50, 84, 48, 54, 58, 53, 52, 58, 51, 48, 46, 50, 53, 51, 51, 51, 51],
          [48, 50, 46, 48, 53, 32, 48, 54, 58, 53, 52]),
         ([50, 48, 50, 52, 45, 48, 53, 45, 48, 50, 84, 49, 52, 58, 48, 55, 58, 51, 48, 46, 50, 53, 52, 52, 52, 52],
          [48, 50, 46, 48, 53, 32, 49, 52, 58, 48, 55]),
         ([50, 48, 50, 52, 45, 48, 53, 45, 48, 50, 84, 50, 49, 58, 50, 48, 58, 51, 48, 46, 50, 53, 53, 53, 53, 53],
          [48, 50, 46, 48, 53, 32, 50, 49, 58, 50, 48]),
         ([50, 48, 50, 52, 45, 48, 53, 45, 48, 51, 84, 48, 52, 58, 51, 51, 58, 51, 48, 46, 50, 53, 54, 54, 54, 54],
          [48, 51, 46, 48, 53, 32, 48, 52, 58, 51, 51]),
         ([50, 48, 50, 52, 45, 48, 53, 45, 48, 51, 84, 49, 49, 58, 52, 54, 58, 51, 48, 46, 50, 53, 55, 55, 55, 55],
          [48, 51, 46, 48, 53, 32, 49, 49, 58, 52, 54]),
         ([50, 48, 50, 52, 45, 48, 53, 45, 48, 51, 84, 49, 56, 58, 53, 57, 58, 51, 48, 46, 50, 53, 56, 56, 56, 56],
          [48, 51, 46, 48, 53, 32, 49, 56, 58, 53, 57]),
         ([50, 48, 50, 52, 45, 48, 53, 45, 48, 52, 84, 48, 50, 58, 49, 50, 58, 51, 48, 46, 50, 53, 57, 57, 57, 57],
          [48, 52, 46, 48, 53, 32, 48, 50, 58, 49, 50]),
         ([50, 48, 50, 52, 45, 48, 53, 45, 48, 52, 84, 48, 57, 58, 50, 53, 58, 51, 48, 46, 50, 54, 49, 49, 49, 48],
          [48, 52, 46, 48, 53, 32, 48, 57, 58, 50, 53])])
     (Stored [([49], \<lparr>username = None, records =
        [\<lparr>rec_id = 1714554930, audio_path = [97, 117, 100, 105, 111, 47, 102, 48, 46, 111, 103, 103],
           raw_text = [110, 111, 116, 101, 32, 48], summary_text = [110, 111, 116, 101, 32, 48],
           created_at = [50, 48, 50, 52, 45, 48, 53, 45, 48, 49, 84, 48, 57, 58, 49, 53, 58, 51, 48, 46, 50, 53, 48, 48, 48, 48]\<rparr>,
         \<lparr>rec_id = 1714580910, audio_path = [97, 117, 100, 105, 111, 47, 102, 49, 46, 111, 103, 103],
           raw_text = [110, 111, 116, 101, 32, 49], summary_text = [110, 111, 116, 101, 32, 49],
           created_at = [50, 48, 50, 52, 45, 48, 53, 45, 48, 49, 84, 49, 54, 58, 50, 56, 58, 51, 48, 46, 50, 53, 49, 49, 49, 49]\<rparr>,
         \<lparr>rec_id = 1714606890, audio_path = [97, 117, 100, 105, 111, 47, 102, 50, 46, 111, 103, 103],
           raw_text = [110, 111, 116, 101, 32, 50], summary_text = [110, 111, 116, 101, 32, 50],
           created_at = [50, 48, 50, 52, 45, 48, 53, 45, 48, 49, 84, 50, 51, 58, 52, 49, 58, 51, 48, 46, 50, 53, 50, 50, 50, 50]\<rparr>,
         \<lparr>rec_id = 1714632870, audio_path = [97, 117, 100, 105, 111, 47, 102, 51, 46, 111, 103, 103],
           raw_text = [110, 111, 116, 101, 32, 51], summary_text = [110, 111, 116, 101, 32, 51],
           created_at = [50, 48, 50, 52, 45, 48, 53, 45, 48, 50, 84, 48, 54, 58, 53, 52, 58, 51, 48, 46, 50, 53, 51, 51, 51, 51]\<rparr>,
         \<lparr>rec_id = 1714658850, audio_path = [97, 117, 100, 105, 111, 47, 102, 52, 46, 111, 103, 103],
           raw_text = [110, 111, 116, 101, 32, 52], summary_text = [110, 111, 116, 101, 32, 52],
           created_at = [50, 48, 50, 52, 45, 48, 53, 45, 48, 50, 84, 49, 52, 58, 48, 55, 58, 51, 48, 46, 50, 53, 52, 52, 52, 52]\<rparr>,
         \<lparr>rec_id = 1714684830, audio_path = [97, 117, 100, 105, 111, 47, 102, 53, 46, 111, 103, 103],
           raw_text = [110, 111, 116, 101, 32, 53], summary_text = [110, 111, 116, 101, 32, 53],
           created_at = [50, 48, 50, 52, 45, 48, 53, 45, 48, 50, 84, 50, 49, 58, 50, 48, 58, 51, 48, 46, 50, 53, 53, 53, 53, 53]\<rparr>,
         \<lparr>rec_id = 1714710810, audio_path = [97, 117, 100, 105, 111, 47, 102, 54, 46, 111, 103, 103],
           raw_text = [110, 111, 116, 101, 32, 54], summary_text = [110, 111, 116, 101, 32, 54],
           created_at = [50, 48, 50, 52, 45, 48, 53, 45, 48, 51, 84, 48, 52, 58, 51, 51, 58, 51, 48, 46, 50, 53, 54, 54, 54, 54]\<rparr>,
         \<lparr>rec_id = 1714736790, audio_path = [97, 117, 100, 105, 111, 47, 102, 55, 46, 111, 103, 103],
           raw_text = [110, 111, 116, 101, 32, 55], summary_text = [110, 111, 116, 101, 32, 55],
           created_at = [50, 48, 50, 52, 45, 48, 53, 45, 48, 51, 84, 49, 49, 58, 52, 54, 58, 51, 48, 46, 50, 53, 55, 55, 55, 55]\<rparr>,
         \<lparr>rec_id = 1714762770, audio_path = [97, 117, 100, 105, 111, 47, 102, 56, 46, 111, 103, 103],
           raw_text = [110, 111, 116, 101, 32, 56], summary_text = [110, 111, 116, 101, 32, 56],
           created_at = [50, 48, 50, 52, 45, 48, 53, 45, 48, 51, 84, 49, 56, 58, 53, 57, 58, 51, 48, 46, 50, 53, 56, 56, 56, 56]\<rparr>,
         \<lparr>rec_id = 1714788750, audio_path = [97, 117, 100, 105, 111, 47, 102, 57, 46, 111, 103, 103],
           raw_text = [110, 111, 116, 101, 32, 57], summary_text = [110, 111, 116, 101, 32, 57],
           created_at = [50, 48, 50, 52, 45, 48, 53, 45, 48, 52, 84, 48, 50, 58, 49, 50, 58, 51, 48, 46, 50, 53, 57, 57, 57, 57]\<rparr>,
         \<lparr>rec_id = 1714814730, audio_path = [97, 117, 100, 105, 111, 47, 102, 49, 48, 46, 111, 103, 103],
           raw_text = [110, 111, 116, 101, 32, 49, 48], summary_text = [110, 111, 116, 101, 32, 49, 48],
           created_at = [50, 48, 50, 52, 45, 48, 53, 45, 48, 52, 84, 48, 57, 58, 50, 53, 58, 51, 48, 46, 50, 54, 49, 49, 49, 48]\<rparr>]\<rparr>)]) 1 =
       Inr (Keyboard bs back_button) \<and>
     length bs = 10 \<and>
     map snd bs = map (\<lambda>i. select_prefix @ str_int i)
       [1714814730, 1714788750, 1714762770, 1714736790, 1714710810, 1714684830, 1714658850, 1714632870, 1714606890, 1714580910]"
proof -
  let ?fmt = "
     (map_of
        [([50, 48, 50, 52, 45, 48, 53, 45, 48, 49, 84, 48, 57, 58, 49, 53, 58, 51, 48, 46, 50, 53, 48, 48, 48, 48],
          [48, 49, 46, 48, 53, 32, 48, 57, 58, 49, 53]),
         ([50, 48, 50, 52, 45, 48, 53, 45, 48, 49, 84, 49, 54, 58, 50, 56, 58, 51, 48, 46, 50, 53, 49, 49, 49, 49],
          [48, 49, 46, 48, 53, 32, 49, 54, 58, 50, 56]),
         ([50, 48, 50, 52, 45, 48, 53, 45, 48, 49, 84, 50, 51, 58, 52, 49, 58, 51, 48, 46, 50, 53, 50, 50, 50, 50],
          [48, 49, 46, 48, 53, 32, 50, 51, 58, 52, 49]),
         ([50, 48, 50, 52, 45, 48, 53, 45, 48, 50, 84, 48, 54, 58, 53, 52, 58, 51, 48, 46, 50, 53, 51, 51, 51, 51],
          [48, 50, 46, 48, 53, 32, 48, 54, 58, 53, 52]),
         ([50, 48, 50, 52, 45, 48, 53, 45, 48, 50, 84, 49, 52, 58, 48, 55, 58, 51, 48, 46, 50, 53, 52, 52, 52, 52],
          [48, 50, 46, 48, 53, 32, 49, 52, 58, 48, 55]),
         ([50, 48, 50, 52, 45, 48, 53, 45, 48, 50, 84, 50, 49, 58, 50, 48, 58, 51, 48, 46, 50, 53, 53, 53, 53, 53],
          [48, 50, 46, 48, 53, 32, 50, 49, 58, 50, 48]),
         ([50, 48, 50, 52, 45, 48, 53, 45, 48, 51, 84, 48, 52, 58, 51, 51, 58, 51, 48, 46, 50, 53, 54, 54, 54, 54],
          [48, 51, 46, 48, 53, 32, 48, 52, 58, 51, 51]),
         ([50, 48, 50, 52, 45, 48, 53, 45, 48, 51, 84, 49, 49, 58, 52, 54, 58, 51, 48, 46, 50, 53, 55, 55, 55, 55],
          [48, 51, 46, 48, 53, 32, 49, 49, 58, 52, 54]),
         ([50, 48, 50, 52, 45, 48, 53, 45, 48, 51, 84, 49, 56, 58, 53, 57, 58, 51, 48, 46, 50, 53, 56, 56, 56, 56],
          [48, 51, 46, 48, 53, 32, 49, 56, 58, 53, 57]),
         ([50, 48, 50, 52, 45, 48, 53, 45, 48, 52, 84, 48, 50, 58, 49, 50, 58, 51, 48, 46, 50, 53, 57, 57, 57, 57],
          [48, 52, 46, 48, 53, 32, 48, 50, 58, 49, 50]),
         ([50, 48, 50, 52, 45, 48, 53, 45, 48, 52, 84, 48, 57, 58, 50, 53, 58, 51, 48, 46, 50, 54, 49, 49, 49, 48],
          [48, 52, 46, 48, 53, 32, 48, 57, 58, 50, 53])])"
  let ?fs = "
     (Stored [([49], \<lparr>username = None, records =
        [\<lparr>rec_id = 1714554930, audio_path = [97, 117, 100, 105, 111, 47, 102, 48, 46, 111, 103, 103],
           raw_text = [110, 111, 116, 101, 32, 48], summary_text = [110, 111, 116, 101, 32, 48],
           created_at = [50, 48, 50, 52, 45, 48, 53, 45, 48, 49, 84, 48, 57, 58, 49, 53, 58, 51, 48, 46, 50, 53, 48, 48, 48, 48]\<rparr>,
         \<lparr>rec_id = 1714580910, audio_path = [97, 117, 100, 105, 111, 47, 102, 49, 46, 111, 103, 103],
           raw_text = [110, 111, 116, 101, 32, 49], summary_text = [110, 111, 116, 101, 32, 49],
           created_at = [50, 48, 50, 52, 45, 48, 53, 45, 48, 49, 84, 49, 54, 58, 50, 56, 58, 51, 48, 46, 50, 53, 49, 49, 49, 49]\<rparr>,
         \<lparr>rec_id = 1714606890, audio_path = [97, 117, 100, 105, 111, 47, 102, 50, 46, 111, 103, 103],
           raw_text = [110, 111, 116, 101, 32, 50], summary_text = [110, 111, 116, 101, 32, 50],
           created_at = [50, 48, 50, 52, 45, 48, 53, 45, 48, 49, 84, 50, 51, 58, 52, 49, 58, 51, 48, 46, 50, 53, 50, 50, 50, 50]\<rparr>,
         \<lparr>rec_id = 1714632870, audio_path = [97, 117, 100, 105, 111, 47, 102, 51, 46, 111, 103, 103],
           raw_text = [110, 111, 116, 101, 32, 51], summary_text = [110, 111, 116, 101, 32, 51],
           created_at = [50, 48, 50, 52, 45, 48, 53, 45, 48, 50, 84, 48, 54, 58, 53, 52, 58, 51, 48, 46, 50, 53, 51, 51, 51, 51]\<rparr>,
         \<lparr>rec_id = 1714658850, audio_path = [97, 117, 100, 105, 111, 47, 102, 52, 46, 111, 103, 103],
           raw_text = [110, 111, 116, 101, 32, 52], summary_text = [110, 111, 116, 101, 32, 52],
           created_at = [50, 48, 50, 52, 45, 48, 53, 45, 48, 50, 84, 49, 52, 58, 48, 55, 58, 51, 48, 46, 50, 53, 52, 52, 52, 52]\<rparr>,
         \<lparr>rec_id = 1714684830, audio_path = [97, 117, 100, 105, 111, 47, 102, 53, 46, 111, 103, 103],
           raw_text = [110, 111, 116, 101, 32, 53], summary_text = [110, 111, 116, 101, 32, 53],
           created_at = [50, 48, 50, 52, 45, 48, 53, 45, 48, 50, 84, 50, 49, 58, 50, 48, 58, 51, 48, 46, 50, 53, 53, 53, 53, 53]\<rparr>,
         \<lparr>rec_id = 1714710810, audio_path = [97, 117, 100, 105, 111, 47, 102, 54, 46, 111, 103, 103],
           raw_text = [110, 111, 116, 101, 32, 54], summary_text = [110, 111, 116, 101, 32, 54],
           created_at = [50, 48, 50, 52, 45, 48, 53, 45, 48, 51, 84, 48, 52, 58, 51, 51, 58, 51, 48, 46, 50, 53, 54, 54, 54, 54]\<rparr>,
         \<lparr>rec_id = 1714736790, audio_path = [97, 117, 100, 105, 111, 47, 102, 55, 46, 111, 103, 103],
           raw_text = [110, 111, 116, 101, 32, 55], summary_text = [110, 111, 116, 101, 32, 55],
           created_at = [50, 48, 50, 52, 45, 48, 53, 45, 48, 51, 84, 49, 49, 58, 52, 54, 58, 51, 48, 46, 50, 53, 55, 55, 55, 55]\<rparr>,
         \<lparr>rec_id = 1714762770, audio_path = [97, 117, 100, 105, 111, 47, 102, 56, 46, 111, 103, 103],
           raw_text = [110, 111, 116, 101, 32, 56], summary_text = [110, 111, 116, 101, 32, 56],
           created_at = [50, 48, 50, 52, 45, 48, 53, 45, 48, 51, 84, 49, 56, 58, 53, 57, 58, 51, 48, 46, 50, 53, 56, 56, 56, 56]\<rparr>,
         \<lparr>rec_id = 1714788750, audio_path = [97, 117, 100, 105, 111, 47, 102, 57, 46, 111, 103, 103],
           raw_text = [110, 111, 116, 101, 32, 57], summary_text = [110, 111, 116, 101, 32, 57],
           created_at = [50, 48, 50, 52, 45, 48, 53, 45, 48, 52, 84, 48, 50, 58, 49, 50, 58, 51, 48, 46, 50, 53, 57, 57, 57, 57]\<rparr>,
         \<lparr>rec_id = 1714814730, audio_path = [97, 117, 100, 105, 111, 47, 102, 49, 48, 46, 111, 103, 103],
           raw_text = [110, 111, 116, 101, 32, 49, 48], summary_text = [110, 111, 116, 101, 32, 49, 48],
           created_at = [50, 48, 50, 52, 45, 48, 53, 45, 48, 52, 84, 48, 57, 58, 50, 53, 58, 51, 48, 46, 50, 54, 49, 49, 49, 48]\<rparr>]\<rparr>)])"
  let ?bs = "
     [([48, 52, 46, 48, 53, 32, 48, 57, 58, 50, 53, 32, 8212, 32, 110, 111, 116, 101, 32, 49, 48, 46, 46, 46],
       select_prefix @ str_int 1714814730),
      ([48, 52, 46, 48, 53, 32, 48, 50, 58, 49, 50, 32, 8212, 32, 110, 111, 116, 101, 32, 57, 46, 46, 46],
       select_prefix @ str_int 1714788750),
      ([48, 51, 46, 48, 53, 32, 49, 56, 58, 53, 57, 32, 8212, 32, 110, 111, 116, 101, 32, 56, 46, 46, 46],
       select_prefix @ str_int 1714762770),
      ([48, 51, 46, 48, 53, 32, 49, 49, 58, 52, 54, 32, 8212, 32, 110, 111, 116, 101, 32, 55, 46, 46, 46],
       select_prefix @ str_int 1714736790),
      ([48, 51, 46, 48, 53, 32, 48, 52, 58, 51, 51, 32, 8212, 32, 110, 111, 116, 101, 32, 54, 46, 46, 46],
       select_prefix @ str_int 1714710810),
      ([48, 50, 46, 48, 53, 32, 50, 49, 58, 50, 48, 32, 8212, 32, 110, 111, 116, 101, 32, 53, 46, 46, 46],
       select_prefix @ str_int 1714684830),
      ([48, 50, 46, 48, 53, 32, 49, 52, 58, 48, 55, 32, 8212, 32, 110, 111, 116, 101, 32, 52, 46, 46, 46],
       select_prefix @ str_int 1714658850),
      ([48, 50, 46, 48, 53, 32, 48, 54, 58, 53, 52, 32, 8212, 32, 110, 111, 116, 101, 32, 51, 46, 46, 46],
       select_prefix @ str_int 1714632870),
      ([48, 49, 46, 48, 53, 32, 50, 51, 58, 52, 49, 32, 8212, 32, 110, 111, 116, 101, 32, 50, 46, 46, 46],
       select_prefix @ str_int 1714606890),
      ([48, 49, 46, 48, 53, 32, 49, 54, 58, 50, 56, 32, 8212, 32, 110, 111, 116, 101, 32, 49, 46, 46, 46],
       select_prefix @ str_int 1714580910)]"
  have h: "create_document_button ?fmt ?fs 1 = Inr (Keyboard ?bs back_button)"
    by (simp add: create_document_button_def get_user_records_def load_data_def str_int_1
        listed_records_def record_button_def dash_def dots_def)
  from create_document_button_listing [OF h] h show ?thesis by simp
qed

text \<open>
  C6, as stated, fails: the id of a record is the clock reading in whole seconds, and
  nothing compares it with the ids the user already has. Two voice notes of one user
  saved within the same second get the same id.
\<close>

theorem two_saves_in_one_second_share_id:
  "get_user_records
     (run Absent [GetOrCreateUser Writable 1 None,
        SaveVoiceRecord Writable 1 [97] [98] [99] 1000 [100],
        SaveVoiceRecord Writable 1 [101] [102] [103] 1000 [104]]) 1 =
     Inr [\<lparr>rec_id = 1000, audio_path = [97], raw_text = [98], summary_text = [99],
            created_at = [100]\<rparr>,
          \<lparr>rec_id = 1000, audio_path = [101], raw_text = [102], summary_text = [103],
            created_at = [104]\<rparr>] \<and>
   \<not> distinct (map rec_id
     [\<lparr>rec_id = 1000, audio_path = [97], raw_text = [98], summary_text = [99],
            created_at = [100]\<rparr>,
      \<lparr>rec_id = 1000, audio_path = [101], raw_text = [102], summary_text = [103],
            created_at = [104]\<rparr>])"
  by (simp add: run_def get_or_create_user_def save_voice_record_def get_user_records_def
      load_data_def save_data_def str_int_1 Let_def store_encodable_def user_encodable_def
      record_encodable_def utf8_encodable_def)

text \<open>
  C6, amended. In every state reached from an absent file by the operations of the
  store, the ids of a user's records are distinct whenever the saves made for that user
  read pairwise distinct clock seconds; ids are compared within one user's list only.
\<close>

theorem ids_unique_when_save_seconds_distinct:
  assumes "run Absent acts = Stored s" and "map_of s k = Some u"
    and "distinct (save_stamps k acts)"
  shows "distinct (map rec_id (records u))"
proof -
  have "map_of (stored_users (run Absent acts)) k = Some u"
    using assms(1,2) by (simp add: stored_users_def)
  from ids_in_stamps [OF this] assms(3) show ?thesis by blast
qed

theorem ids_unique_when_save_seconds_distinct_witness:
  "run Absent [GetOrCreateUser Writable 1 None,
      SaveVoiceRecord Writable 1 [97] [98] [99] 1000 [100],
      SaveVoiceRecord Writable 1 [101] [102] [103] 1001 [104]] =
     Stored [([49], \<lparr>username = None, records =
       [\<lparr>rec_id = 1000, audio_path = [97], raw_text = [98], summary_text = [99],
          created_at = [100]\<rparr>,
        \<lparr>rec_id = 1001, audio_path = [101], raw_text = [102], summary_text = [103],
          created_at = [104]\<rparr>]\<rparr>)] \<and>
   distinct (save_stamps [49] [GetOrCreateUser Writable 1 None,
      SaveVoiceRecord Writable 1 [97] [98] [99] 1000 [100],
      SaveVoiceRecord Writable 1 [101] [102] [103] 1001 [104]]) \<and>
   distinct (map rec_id
       [\<lparr>rec_id = 1000, audio_path = [97], raw_text = [98], summary_text = [99],
          created_at = [100]\<rparr>,
        \<lparr>rec_id = 1001, audio_path = [101], raw_text = [102], summary_text = [103],
          created_at = [104]\<rparr>])"
proof -
  have r: "run Absent [GetOrCreateUser Writable 1 None,
      SaveVoiceRecord Writable 1 [97] [98] [99] 1000 [100],
      SaveVoiceRecord Writable 1 [101] [102] [103] 1001 [104]] =
     Stored [([49], \<lparr>username = None, records =
       [\<lparr>rec_id = 1000, audio_path = [97], raw_text = [98], summary_text = [99],
          created_at = [100]\<rparr>,
        \<lparr>rec_id = 1001, audio_path = [101], raw_text = [102], summary_text = [103],
          created_at = [104]\<rparr>]\<rparr>)]"
    by (simp add: run_def get_or_create_user_def save_voice_record_def load_data_def
        save_data_def str_int_1 Let_def store_encodable_def user_encodable_def
        record_encodable_def utf8_encodable_def)
  have d: "distinct (save_stamps [49] [GetOrCreateUser Writable 1 None,
      SaveVoiceRecord Writable 1 [97] [98] [99] 1000 [100],
      SaveVoiceRecord Writable 1 [101] [102] [103] 1001 [104]])"
    by (simp add: str_int_1)
  from ids_unique_when_save_seconds_distinct [OF r _ d, of "\<lparr>username = None, records =
       [\<lparr>rec_id = 1000, audio_path = [97], raw_text = [98], summary_text = [99],
          created_at = [100]\<rparr>,
        \<lparr>rec_id = 1001, audio_path = [101], raw_text = [102], summary_text = [103],
          created_at = [104]\<rparr>]\<rparr>"] r d
  show ?thesis by simp
qed

text \<open>
  C1, as stated, fails: only a failure of a stage is replaced by a text that is not
  empty. A recogniser that succeeds with the empty text (silence) gives a record whose
  \<open>raw_text\<close> and \<open>summary_text\<close> are both empty.
\<close>

theorem handle_voice_empty_transcript:
  "(case handle_voice \<lparr>load_whisper = Inr (\<lambda>p. Inr []), load_pipeline = Inl RuntimeError\<rparr>
          initial_models Writable Absent 1 None [102] None 1000 [50] of
      (Inr (Heard s), g, fs') \<Rightarrow>
        get_user_records fs' 1 =
          Inr [\<lparr>rec_id = 1000,
                audio_path = [97, 117, 100, 105, 111, 47, 102, 46, 111, 103, 103],
                raw_text = [], summary_text = [], created_at = [50]\<rparr>]
    | _ \<Rightarrow> False)"
  by (simp add: handle_voice_def get_or_create_user_def save_voice_record_def
      get_user_records_def load_data_def save_data_def str_int_1 Let_def
      transcribe_audio_def summarize_text_def load_models_def initial_models_def
      path_join_def audio_dir_def ogg_def store_encodable_def user_encodable_def
      record_encodable_def utf8_encodable_def)

text \<open>
  C1, amended. For every loadable store, user id and fetched audio file such that the
  store with the new record can be written (the file can be written and every string
  can be encoded in UTF-8), \<open>handle_voice\<close> answers with the summary and appends exactly
  one record to that user's record list (the list is empty for a user created by this
  call), with the outputs of \<open>transcribe_audio\<close> and \<open>summarize_text\<close> as \<open>raw_text\<close>
  and \<open>summary_text\<close>. Both texts are the fallback sentence, hence not empty, when the
  recogniser fails; \<open>raw_text\<close> is the text of a recogniser that succeeds;
  \<open>summary_text\<close> is not empty when \<open>raw_text\<close> is not empty and the summarizer is not
  called (fewer than 50 characters) or fails, and it is empty when \<open>raw_text\<close> is
  empty. When the file cannot be opened for writing, a known user is answered with the
  error message and no record is appended.
\<close>

theorem handle_voice_appends_one_record:
  assumes load: "load_data fs = Inr d"
    and u0: "u0 = (case map_of d (str_int uid) of
                     None \<Rightarrow> \<lparr>username = name, records = []\<rparr> | Some u \<Rightarrow> u)"
    and path: "path = path_join audio_dir (file_id @ ogg)"
    and tr: "transcribe_audio env g path = (raw, g1)"
    and su: "summarize_text env g1 raw = (summary, g2)"
    and d': "d' = AList.update (str_int uid) (u0\<lparr>records := records u0 @
                  [\<lparr>rec_id = now_ts, audio_path = path, raw_text = raw,
                    summary_text = summary, created_at = now_iso\<rparr>]\<rparr>) d"
    and enc: "store_encodable d'"
  shows "handle_voice env g Writable fs uid name file_id None now_ts now_iso =
           (Inr (Heard summary), g2, Stored d')
         \<and> (whisper_fails env g path \<longrightarrow>
               raw = transcribe_fallback \<and> summary = transcribe_fallback \<and>
               raw \<noteq> [] \<and> summary \<noteq> [])
         \<and> (raw \<noteq> [] \<and> (length raw < 50 \<or> summarizer_fails env g1 raw) \<longrightarrow> summary \<noteq> [])
         \<and> (raw = [] \<longrightarrow> summary = [])
         \<and> (\<forall>w t. whisper_model (load_models env g) = Some w \<and> w path = Inr t \<longrightarrow> raw = t)
         \<and> (\<forall>e u. map_of d (str_int uid) = Some u \<longrightarrow>
               handle_voice env g (OpenRaises e) fs uid name file_id None now_ts now_iso =
                 (Inr ProcessingError, g2, fs))"
proof (intro conjI impI allI)
  let ?rec = "\<lparr>rec_id = now_ts, audio_path = path, raw_text = raw,
                summary_text = summary, created_at = now_iso\<rparr>"
  show "handle_voice env g Writable fs uid name file_id None now_ts now_iso =
           (Inr (Heard summary), g2, Stored d')"
  proof (cases "map_of d (str_int uid)")
    case None
    let ?new = "\<lparr>username = name, records = []\<rparr>"
    let ?d1 = "AList.update (str_int uid) ?new d"
    from None u0 have u0': "u0 = ?new" by simp
    from enc d' u0' have "user_encodable (?new\<lparr>records := [?rec]\<rparr>)"
      using store_encodable_updateD by fastforce
    then have "user_encodable ?new" by (simp add: user_encodable_def)
    with enc d' have enc1: "store_encodable ?d1"
      by (simp add: store_encodable_update_other)
    have goc: "get_or_create_user Writable fs uid name = (Inr ?new, Stored ?d1)"
      using load None enc1 by (simp add: get_or_create_user_def save_data_def Let_def)
    have "AList.update (str_int uid) (?new\<lparr>records := records ?new @ [?rec]\<rparr>) ?d1 = d'"
      using d' u0' by simp
    then have svr: "save_voice_record Writable (Stored ?d1) uid path raw summary now_ts now_iso =
        (Inr now_ts, Stored d')"
      using enc
      by (simp add: save_voice_record_def load_data_Stored AList.update_conv' save_data_def
          Let_def)
    show ?thesis
      using goc svr tr su path by (simp add: handle_voice_def Let_def)
  next
    case (Some u)
    with load have fs: "fs = Stored d" by (rule load_data_present)
    from Some u0 have u0': "u0 = u" by simp
    have goc: "get_or_create_user Writable fs uid name = (Inr u, fs)"
      using load Some by (simp add: get_or_create_user_def)
    have svr: "save_voice_record Writable fs uid path raw summary now_ts now_iso =
        (Inr now_ts, Stored d')"
      using load Some enc d' u0'
      by (simp add: save_voice_record_def save_data_def Let_def)
    show ?thesis
      using goc svr tr su path by (simp add: handle_voice_def Let_def)
  qed
next
  assume wf: "whisper_fails env g path"
  then show r: "raw = transcribe_fallback"
    using transcribe_audio_fails [OF wf] tr by simp
  then show "summary = transcribe_fallback"
    using summarize_text_below_50 [of raw env g1] su by (simp add: length_transcribe_fallback)
  then show "summary \<noteq> []" by (simp add: transcribe_fallback_def)
  from r show "raw \<noteq> []" by (simp add: transcribe_fallback_def)
next
  assume a: "raw \<noteq> [] \<and> (length raw < 50 \<or> summarizer_fails env g1 raw)"
  show "summary \<noteq> []"
  proof (cases "length raw < 50")
    case True
    then show ?thesis using summarize_text_below_50 [of raw env g1] su a by simp
  next
    case False
    then have "fst (summarize_text env g1 raw) =
        (if 100 < length raw then take 100 raw @ dots else raw)"
      using a by (intro summarize_text_fallback) auto
    then show ?thesis using su a by (auto simp: dots_def split: if_splits)
  qed
next
  assume "raw = []"
  then show "summary = []"
    using summarize_text_below_50 [of raw env g1] su by simp
next
  fix w t assume "whisper_model (load_models env g) = Some w \<and> w path = Inr t"
  then show "raw = t"
    using tr by (simp add: transcribe_audio_def Let_def)
next
  fix e u assume known: "map_of d (str_int uid) = Some u"
  have goc: "get_or_create_user (OpenRaises e) fs uid name = (Inr u, fs)"
    using load known by (simp add: get_or_create_user_def)
  have svr: "save_voice_record (OpenRaises e) fs uid path raw summary now_ts now_iso =
      (Inl e, fs)"
    using load known by (simp add: save_voice_record_def save_data_def Let_def)
  show "handle_voice env g (OpenRaises e) fs uid name file_id None now_ts now_iso =
      (Inr ProcessingError, g2, fs)"
    using goc svr tr su path by (simp add: handle_voice_def Let_def)
qed

theorem handle_voice_appends_one_record_witness:
  "whisper_fails \<lparr>load_whisper = Inl RuntimeError, load_pipeline = Inl RuntimeError\<rparr>
     initial_models [97, 117, 100, 105, 111, 47, 102, 46, 111, 103, 103] \<and>
   store_encodable
     [([49], \<lparr>username = Some [98], records =
            [\<lparr>rec_id = 1000,
              audio_path = [97, 117, 100, 105, 111, 47, 102, 46, 111, 103, 103],
              raw_text = transcribe_fallback, summary_text = transcribe_fallback,
              created_at = [50]\<rparr>]\<rparr>)] \<and>
   handle_voice \<lparr>load_whisper = Inl RuntimeError, load_pipeline = Inl RuntimeError\<rparr>
     initial_models Writable Absent 1 (Some [98]) [102] None 1000 [50] =
     (Inr (Heard transcribe_fallback), initial_models,
      Stored [([49], \<lparr>username = Some [98], records =
            [\<lparr>rec_id = 1000,
              audio_path = [97, 117, 100, 105, 111, 47, 102, 46, 111, 103, 103],
              raw_text = transcribe_fallback, summary_text = transcribe_fallback,
              created_at = [50]\<rparr>]\<rparr>)]) \<and>
   transcribe_fallback \<noteq> []"
proof -
  let ?env = "\<lparr>load_whisper = Inl RuntimeError, load_pipeline = Inl RuntimeError\<rparr>"
  let ?path = "[97, 117, 100, 105, 111, 47, 102, 46, 111, 103, 103] :: pystr"
  let ?d' = "[([49], \<lparr>username = Some [98], records =
            [\<lparr>rec_id = 1000, audio_path = ?path,
              raw_text = transcribe_fallback, summary_text = transcribe_fallback,
              created_at = [50]\<rparr>]\<rparr>)]"
  have load: "load_data Absent = Inr []"
    by (simp add: load_data_def)
  have u0: "\<lparr>username = Some [98], records = []\<rparr> =
      (case map_of [] (str_int 1) of
         None \<Rightarrow> \<lparr>username = Some [98], records = []\<rparr> | Some u \<Rightarrow> u)"
    by simp
  have path: "?path = path_join audio_dir ([102] @ ogg)"
    by (simp add: path_join_def audio_dir_def ogg_def)
  have tr: "transcribe_audio ?env initial_models ?path = (transcribe_fallback, initial_models)"
    by (simp add: transcribe_audio_def load_models_def initial_models_def)
  have su: "summarize_text ?env initial_models transcribe_fallback =
      (transcribe_fallback, initial_models)"
    by (simp add: summarize_text_def load_models_def initial_models_def
        length_transcribe_fallback)
  have d': "?d' = AList.update (str_int 1)
      (\<lparr>username = Some [98], records = []\<rparr>\<lparr>records :=
         records \<lparr>username = Some [98], records = []\<rparr> @
           [\<lparr>rec_id = 1000, audio_path = ?path, raw_text = transcribe_fallback,
             summary_text = transcribe_fallback, created_at = [50]\<rparr>]\<rparr>) []"
    by (simp add: str_int_1)
  have enc: "store_encodable ?d'"
    by (simp add: store_encodable_def user_encodable_def record_encodable_def
        utf8_encodable_def transcribe_fallback_def)
  have wf: "whisper_fails ?env initial_models ?path"
    by (simp add: whisper_fails_def load_models_def initial_models_def)
  from handle_voice_appends_one_record [OF load u0 path tr su d' enc] wf enc
  show ?thesis by simp
qed

end
